theory Spec2Isabelle
  imports Main "HOL-Library.Multiset"
begin

section \<open>The data the client receives\<close>

text \<open>
  The client of \<^verbatim>\<open>frontend/src/App.js\<close> deserialises what the backend sends and keeps it
  in the state of its view components. A field of a JSON object can be absent
  (\<^verbatim>\<open>undefined\<close>), \<^verbatim>\<open>null\<close> or present; the code tells the three apart
  (\<^verbatim>\<open>source_id !== null && source_id !== undefined\<close>), so the model does too.
  Strict equality \<^verbatim>\<open>===\<close> on such a field is equality of this type: \<^verbatim>\<open>null\<close> and
  \<^verbatim>\<open>undefined\<close> differ, two strings are equal when their contents are.

  A string is a \<^typ>\<open>string\<close>, one \<^typ>\<open>char\<close> per code unit; code units above 255 are
  outside the model.

  The repository holds an earlier copy of the file as well. It lacks the delete buttons of
  the summary and article cards and renders some views differently; the functions modelled
  here are otherwise the same in both.
\<close>

datatype 'a nullable = Undefined | Null | Val 'a

record source =
  s_id :: string
  s_name :: string
  s_url :: string
  s_category :: "string nullable"
  s_tags :: "string list nullable"
  s_active :: bool
  s_last_checked :: "string nullable"

text \<open>
  \<open>sm_created_at\<close> is the time value of \<^verbatim>\<open>new Date(summary.created_at)\<close>, in
  milliseconds: the code only ever reads the field through \<^verbatim>\<open>new Date\<close>. The parsing
  of the timestamp text by the engine is not modelled.
\<close>

record summary =
  sm_id :: string
  sm_title :: string
  sm_summary :: string
  sm_url :: string
  sm_source_name :: string
  sm_source_id :: "string nullable"
  sm_category :: "string nullable"
  sm_tags :: "string list nullable"
  sm_created_at :: int
  sm_is_new :: bool

section \<open>Built-ins of the language\<close>

text \<open>
  \<^verbatim>\<open>a || d\<close> for a string field \<open>a\<close> that may be missing: \<open>d\<close> when \<open>a\<close> is
  \<^verbatim>\<open>undefined\<close>, \<^verbatim>\<open>null\<close> or the empty string (the falsy values), \<open>a\<close> otherwise.
\<close>

fun or_string :: "string nullable \<Rightarrow> string \<Rightarrow> string" where
  "or_string Undefined d = d"
| "or_string Null d = d"
| "or_string (Val s) d = (if s = [] then d else s)"

text \<open>\<^verbatim>\<open>s || null\<close> for a string \<open>s\<close>.\<close>

definition or_null :: "string \<Rightarrow> string nullable" where
  "or_null s = (if s = [] then Null else Val s)"

text \<open>
  \<^verbatim>\<open>Array.prototype.sort(comparefn)\<close>. The language requires the sort to be stable and,
  when \<open>comparefn\<close> is a consistent comparator, to order the array by it; this
  determines the result. The model is the insertion sort the engines run on short
  arrays: the elements are taken from the left, and each one moves left past the elements
  that compare greater than it (\<open>comparefn y x > 0\<close>). \<open>insertFromRight\<close> works on the
  sorted prefix held in reverse. With a comparator that is not consistent the language
  leaves the order to the engine; the model then gives what this insertion sort gives.
\<close>

fun insertFromRight :: "('a \<Rightarrow> 'a \<Rightarrow> int) \<Rightarrow> 'a \<Rightarrow> 'a list \<Rightarrow> 'a list" where
  "insertFromRight comparefn x [] = [x]"
| "insertFromRight comparefn x (y # rs) =
     (if comparefn y x > 0 then y # insertFromRight comparefn x rs else x # y # rs)"

definition array_sort :: "('a \<Rightarrow> 'a \<Rightarrow> int) \<Rightarrow> 'a list \<Rightarrow> 'a list" where
  "array_sort comparefn xs = rev (foldl (\<lambda>rs x. insertFromRight comparefn x rs) [] xs)"

text \<open>
  \<^verbatim>\<open>String.prototype.localeCompare\<close> is the collation of the engine's locale: a negative
  number, zero or a positive number. It is a parameter of the functions that call it.
  \<open>compareCodeUnits\<close> is the plain collation that compares code unit by code unit; the
  examples are evaluated with it.
\<close>

type_synonym collation = "string \<Rightarrow> string \<Rightarrow> int"

fun compareCodeUnits :: collation where
  "compareCodeUnits [] [] = 0"
| "compareCodeUnits [] (y # ys) = -1"
| "compareCodeUnits (x # xs) [] = 1"
| "compareCodeUnits (x # xs) (y # ys) =
     (if of_char x < (of_char y :: nat) then -1
      else if of_char x > (of_char y :: nat) then 1
      else compareCodeUnits xs ys)"

section \<open>The Summaries view\<close>

record article_form =
  af_title :: string
  af_theme :: string

record summaries_state =
  summaries :: "summary list"
  filteredSummaries :: "summary list"
  sv_loading :: bool
  categories :: "string list"
  tags :: "string list"
  selectedCategory :: string
  selectedTag :: string
  view :: string
  selectedForArticle :: "string list"
  compilingArticle :: bool
  showCompileDialog :: bool
  articleFormData :: article_form

text \<open>The two comparators of \<^verbatim>\<open>filterSummaries\<close>.\<close>

definition byRecency :: "summary \<Rightarrow> summary \<Rightarrow> int" where
  "byRecency a b = sm_created_at b - sm_created_at a"

definition byCategory :: "collation \<Rightarrow> summary \<Rightarrow> summary \<Rightarrow> int" where
  "byCategory localeCompare a b =
     (if sm_category a = sm_category b then sm_created_at b - sm_created_at a
      else localeCompare (or_string (sm_category a) []) (or_string (sm_category b) []))"

text \<open>\<^verbatim>\<open>s.tags && s.tags.includes(selectedTag)\<close>: an array, also the empty one, is truthy.\<close>

definition hasTag :: "string \<Rightarrow> summary \<Rightarrow> bool" where
  "hasTag t s = (case sm_tags s of Val ts \<Rightarrow> t \<in> set ts | Null \<Rightarrow> False | Undefined \<Rightarrow> False)"

definition filtered :: "collation \<Rightarrow> summaries_state \<Rightarrow> summary list" where
  "filtered localeCompare st =
     (let f0 = summaries st;
          f1 = (if selectedCategory st \<noteq> ''all''
                then filter (\<lambda>s. sm_category s = Val (selectedCategory st)) f0 else f0);
          f2 = (if selectedTag st \<noteq> ''all''
                then filter (hasTag (selectedTag st)) f1 else f1)
      in if view st = ''category'' then array_sort (byCategory localeCompare) f2
         else array_sort byRecency f2)"

definition filterSummaries :: "collation \<Rightarrow> summaries_state \<Rightarrow> summaries_state" where
  "filterSummaries localeCompare st = st\<lparr>filteredSummaries := filtered localeCompare st\<rparr>"

text \<open>
  \<^verbatim>\<open>toggleSummarySelection\<close>:
  \<^verbatim>\<open>prev.includes(id) ? prev.filter(s => s !== id) : [...prev, id]\<close>.
\<close>

definition toggleSummarySelection :: "string \<Rightarrow> summaries_state \<Rightarrow> summaries_state" where
  "toggleSummarySelection i st =
     st\<lparr>selectedForArticle :=
          (if i \<in> set (selectedForArticle st)
           then filter (\<lambda>s. s \<noteq> i) (selectedForArticle st)
           else selectedForArticle st @ [i])\<rparr>"

text \<open>
  The badges of a summary card in the list: \<^verbatim>\<open>is_new && <Badge>Nouveau</Badge>\<close>, then the
  automatic badge when \<open>isAutomatic\<close>, then the manual badge when not.
\<close>

datatype badge = NewBadge | AutoBadge | ManualBadge

definition isAutomatic :: "summary \<Rightarrow> bool" where
  "isAutomatic s = (sm_source_id s \<noteq> Null \<and> sm_source_id s \<noteq> Undefined)"

definition badges :: "summary \<Rightarrow> badge list" where
  "badges s =
     (if sm_is_new s then [NewBadge] else []) @
     (if isAutomatic s then [AutoBadge] else []) @
     (if \<not> isAutomatic s then [ManualBadge] else [])"

section \<open>Requests and what a handler does\<close>

text \<open>
  A handler is a function from the state of its component to the effects it has, in
  order, and the state it leaves. The effects are the HTTP requests it issues through
  axios, the toasts it shows and the navigations. What the backend answers to a request
  is an argument of the handler: the promise is rejected, or resolved with the data of
  the response. A \<^verbatim>\<open>catch\<close> block is the \<open>Rejected\<close> branch. The text of a toast and
  the logging to the console are not modelled. URLs are relative to
  \<^verbatim>\<open>BACKEND_URL\<close>, which is fixed when the client is built.
\<close>

record source_payload =
  p_name :: string
  p_url :: string
  p_category :: "string nullable"
  p_tags :: "string list"

record article_payload =
  ap_title :: string
  ap_theme :: string
  ap_summary_ids :: "string list"

record url_payload =
  up_url :: string
  up_save :: bool

datatype body = NoBody | SourceBody source_payload | ArticleBody article_payload
  | UrlBody url_payload

datatype http_method = GET | POST | PUT | DELETE

datatype request = Request http_method string body

datatype effect = Http request | ToastSuccess | ToastError | Navigate string

datatype 'a outcome = Rejected | Resolved 'a

type_synonym 'st handler = "'st \<Rightarrow> effect list \<times> 'st"

definition API :: string where
  "API = ''/api''"

text \<open>The requests among the effects, in the order they are issued.\<close>

fun requests :: "effect list \<Rightarrow> request list" where
  "requests [] = []"
| "requests (Http r # es) = r # requests es"
| "requests (e # es) = requests es"

section \<open>The Sources view\<close>

record source_form =
  f_name :: string
  f_url :: string
  f_category :: string
  f_tags :: string

record sources_state =
  sources :: "source list"
  so_loading :: bool
  dialogOpen :: bool
  editingSource :: "source option"
  formData :: source_form

definition emptyForm :: source_form where
  "emptyForm = \<lparr>f_name = [], f_url = [], f_category = [], f_tags = []\<rparr>"

text \<open>
  \<^verbatim>\<open>String.prototype.split\<close> with a separator of one code unit, \<^verbatim>\<open>Array.prototype.join\<close>
  and \<^verbatim>\<open>String.prototype.trim\<close>. \<open>isWhiteSpace\<close> holds the white space and line
  terminators of the language below code unit 256: tab, line feed, vertical tab, form
  feed, carriage return, space and no-break space.
\<close>

fun splitAcc :: "char \<Rightarrow> string \<Rightarrow> string \<Rightarrow> string list" where
  "splitAcc sep acc [] = [rev acc]"
| "splitAcc sep acc (c # cs) =
     (if c = sep then rev acc # splitAcc sep [] cs else splitAcc sep (c # acc) cs)"

definition split_on :: "char \<Rightarrow> string \<Rightarrow> string list" where
  "split_on sep s = splitAcc sep [] s"

fun join :: "string \<Rightarrow> string list \<Rightarrow> string" where
  "join sep [] = []"
| "join sep [x] = x"
| "join sep (x # y # ys) = x @ sep @ join sep (y # ys)"

definition isWhiteSpace :: "char \<Rightarrow> bool" where
  "isWhiteSpace c = ((of_char c :: nat) \<in> {9, 10, 11, 12, 13, 32, 160})"

definition trim :: "string \<Rightarrow> string" where
  "trim s = rev (dropWhile isWhiteSpace (rev (dropWhile isWhiteSpace s)))"

definition fetchSources :: "source list outcome \<Rightarrow> sources_state handler" where
  "fetchSources response st =
     (case response of
        Resolved d \<Rightarrow>
          ([Http (Request GET (API @ ''/sources'') NoBody)],
           st\<lparr>sources := d, so_loading := False\<rparr>)
      | Rejected \<Rightarrow>
          ([Http (Request GET (API @ ''/sources'') NoBody), ToastError],
           st\<lparr>so_loading := False\<rparr>))"

definition payload :: "source_form \<Rightarrow> source_payload" where
  "payload fd =
     \<lparr>p_name = f_name fd,
      p_url = f_url fd,
      p_category = or_null (f_category fd),
      p_tags = (if f_tags fd \<noteq> [] then map trim (split_on (CHR '','') (f_tags fd)) else [])\<rparr>"

definition submitRequest :: "sources_state \<Rightarrow> request" where
  "submitRequest st =
     (case editingSource st of
        Some src \<Rightarrow> Request PUT (API @ ''/sources/'' @ s_id src) (SourceBody (payload (formData st)))
      | None \<Rightarrow> Request POST (API @ ''/sources'') (SourceBody (payload (formData st))))"

text \<open>
  \<^verbatim>\<open>handleSubmit\<close> of the Sources view. \<open>saved\<close> is the answer to the PUT or POST,
  \<open>refetched\<close> the answer to the GET of \<^verbatim>\<open>fetchSources\<close>, which the handler calls last
  and does not await.
\<close>

definition handleSubmit ::
  "unit outcome \<Rightarrow> source list outcome \<Rightarrow> sources_state handler" where
  "handleSubmit saved refetched st =
     (case saved of
        Rejected \<Rightarrow> ([Http (submitRequest st), ToastError], st)
      | Resolved _ \<Rightarrow>
          (let (es, st') = fetchSources refetched
                 (st\<lparr>dialogOpen := False, formData := emptyForm, editingSource := None\<rparr>)
           in ([Http (submitRequest st), ToastSuccess] @ es, st')))"

text \<open>
  \<^verbatim>\<open>handleEdit\<close>. \<^verbatim>\<open>source.tags.join\<close> throws a TypeError when \<open>tags\<close> is \<^verbatim>\<open>null\<close> or
  absent.
\<close>

datatype error = TypeError

definition handleEdit :: "source \<Rightarrow> sources_state \<Rightarrow> error + sources_state" where
  "handleEdit src st =
     (case s_tags src of
        Val ts \<Rightarrow>
          Inr (st\<lparr>editingSource := Some src,
                  formData := \<lparr>f_name = s_name src, f_url = s_url src,
                                f_category = or_string (s_category src) [],
                                f_tags = join '', '' ts\<rparr>,
                  dialogOpen := True\<rparr>)
      | Null \<Rightarrow> Inl TypeError
      | Undefined \<Rightarrow> Inl TypeError)"

text \<open>\<^verbatim>\<open>handleDelete\<close>; \<open>confirmed\<close> is the answer of \<^verbatim>\<open>window.confirm\<close>.\<close>

definition handleDelete ::
  "bool \<Rightarrow> string \<Rightarrow> unit outcome \<Rightarrow> source list outcome \<Rightarrow> sources_state handler" where
  "handleDelete confirmed i deleted refetched st =
     (if \<not> confirmed then ([], st)
      else case deleted of
        Rejected \<Rightarrow> ([Http (Request DELETE (API @ ''/sources/'' @ i) NoBody), ToastError], st)
      | Resolved _ \<Rightarrow>
          (let (es, st') = fetchSources refetched st
           in ([Http (Request DELETE (API @ ''/sources/'' @ i) NoBody), ToastSuccess] @ es, st')))"

definition handleToggle ::
  "string \<Rightarrow> unit outcome \<Rightarrow> source list outcome \<Rightarrow> sources_state handler" where
  "handleToggle i toggled refetched st =
     (case toggled of
        Rejected \<Rightarrow>
          ([Http (Request POST (API @ ''/sources/'' @ i @ ''/toggle'') NoBody), ToastError], st)
      | Resolved _ \<Rightarrow>
          (let (es, st') = fetchSources refetched st
           in ([Http (Request POST (API @ ''/sources/'' @ i @ ''/toggle'') NoBody), ToastSuccess]
                 @ es, st')))"

section \<open>The handlers of the Summaries view\<close>

record source_reference =
  sr_url :: string
  sr_title :: string
  sr_source_name :: string

record article =
  a_id :: string
  a_title :: string
  a_theme :: string
  a_content :: string
  a_tags :: "string list nullable"
  a_sources :: "string list"
  a_source_references :: "source_reference list nullable"
  a_created_at :: int

text \<open>
  \<^verbatim>\<open>fetchData\<close> of the Summaries view issues its three GETs at once
  (\<^verbatim>\<open>Promise.all\<close>) and fails when one of them is rejected.
\<close>

definition summariesRequests :: "effect list" where
  "summariesRequests =
     [Http (Request GET (API @ ''/summaries'') NoBody),
      Http (Request GET (API @ ''/categories'') NoBody),
      Http (Request GET (API @ ''/tags'') NoBody)]"

fun fetchData_Summaries ::
  "summary list outcome \<Rightarrow> string list outcome \<Rightarrow> string list outcome \<Rightarrow>
   summaries_state handler" where
  "fetchData_Summaries (Resolved ss) (Resolved cs) (Resolved ts) st =
     (summariesRequests, st\<lparr>summaries := ss, categories := cs, tags := ts, sv_loading := False\<rparr>)"
| "fetchData_Summaries summariesRes categoriesRes tagsRes st =
     (summariesRequests @ [ToastError], st\<lparr>sv_loading := False\<rparr>)"

text \<open>\<^verbatim>\<open>handleCompileArticle\<close>; \<open>compiled\<close> is the answer to the POST.\<close>

definition compileRequest :: "summaries_state \<Rightarrow> request" where
  "compileRequest st =
     Request POST (API @ ''/articles'')
       (ArticleBody \<lparr>ap_title = af_title (articleFormData st),
                     ap_theme = af_theme (articleFormData st),
                     ap_summary_ids = selectedForArticle st\<rparr>)"

definition handleCompileArticle :: "article outcome \<Rightarrow> summaries_state handler" where
  "handleCompileArticle compiled st =
     (if length (selectedForArticle st) < 2 then ([ToastError], st)
      else case compiled of
        Resolved d \<Rightarrow>
          ([Http (compileRequest st), ToastSuccess, Navigate (''/articles/'' @ a_id d)],
           st\<lparr>compilingArticle := True, showCompileDialog := False,
              articleFormData := \<lparr>af_title = [], af_theme = []\<rparr>,
              selectedForArticle := [], compilingArticle := False\<rparr>)
      | Rejected \<Rightarrow>
          ([Http (compileRequest st), ToastError],
           st\<lparr>compilingArticle := True, compilingArticle := False\<rparr>))"

text \<open>The handler of the delete button of a summary card.\<close>

definition deleteSummary ::
  "bool \<Rightarrow> string \<Rightarrow> unit outcome \<Rightarrow>
   summary list outcome \<Rightarrow> string list outcome \<Rightarrow> string list outcome \<Rightarrow>
   summaries_state handler" where
  "deleteSummary confirmed i deleted summariesRes categoriesRes tagsRes st =
     (if \<not> confirmed then ([], st)
      else case deleted of
        Rejected \<Rightarrow> ([Http (Request DELETE (API @ ''/summaries/'' @ i) NoBody), ToastError], st)
      | Resolved _ \<Rightarrow>
          (let (es, st') = fetchData_Summaries summariesRes categoriesRes tagsRes st
           in ([Http (Request DELETE (API @ ''/summaries/'' @ i) NoBody), ToastSuccess] @ es,
               st')))"

section \<open>The summary detail view\<close>

record summary_detail_state =
  sd_summary :: "summary option"
  sd_loading :: bool

text \<open>
  \<^verbatim>\<open>fetchSummary\<close>; \<open>fetched\<close> is the answer to the GET, \<open>marked\<close> the answer to the
  POST of mark-read, when it is issued.
\<close>

definition fetchSummary ::
  "string \<Rightarrow> summary outcome \<Rightarrow> unit outcome \<Rightarrow> summary_detail_state handler" where
  "fetchSummary i fetched marked st =
     (case fetched of
        Rejected \<Rightarrow>
          ([Http (Request GET (API @ ''/summaries/'' @ i) NoBody), ToastError],
           st\<lparr>sd_loading := False\<rparr>)
      | Resolved d \<Rightarrow>
          (if sm_is_new d then
             (case marked of
                Resolved _ \<Rightarrow>
                  ([Http (Request GET (API @ ''/summaries/'' @ i) NoBody),
                    Http (Request POST (API @ ''/summaries/'' @ i @ ''/mark-read'') NoBody)],
                   st\<lparr>sd_summary := Some d, sd_loading := False\<rparr>)
              | Rejected \<Rightarrow>
                  ([Http (Request GET (API @ ''/summaries/'' @ i) NoBody),
                    Http (Request POST (API @ ''/summaries/'' @ i @ ''/mark-read'') NoBody),
                    ToastError],
                   st\<lparr>sd_summary := Some d, sd_loading := False\<rparr>))
           else
             ([Http (Request GET (API @ ''/summaries/'' @ i) NoBody)],
              st\<lparr>sd_summary := Some d, sd_loading := False\<rparr>)))"

section \<open>The single URL view\<close>

record url_result =
  ur_title :: string
  ur_url :: string
  ur_summary :: string

record single_url_state =
  su_url :: string
  su_result :: "url_result option"
  su_loading :: bool
  saveOption :: bool

definition handleSubmit_SingleUrl :: "url_result outcome \<Rightarrow> single_url_state handler" where
  "handleSubmit_SingleUrl processed st =
     (case processed of
        Resolved d \<Rightarrow>
          ([Http (Request POST (API @ ''/process-url'')
                    (UrlBody \<lparr>up_url = su_url st, up_save = saveOption st\<rparr>)),
            ToastSuccess],
           st\<lparr>su_loading := True, su_result := None, su_result := Some d, su_loading := False\<rparr>)
      | Rejected \<Rightarrow>
          ([Http (Request POST (API @ ''/process-url'')
                    (UrlBody \<lparr>up_url = su_url st, up_save = saveOption st\<rparr>)),
            ToastError],
           st\<lparr>su_loading := True, su_result := None, su_loading := False\<rparr>))"

section \<open>The Articles views\<close>

record articles_state =
  articles :: "article list"
  ar_loading :: bool

definition fetchData_Articles :: "article list outcome \<Rightarrow> articles_state handler" where
  "fetchData_Articles articlesRes st =
     (case articlesRes of
        Resolved d \<Rightarrow>
          ([Http (Request GET (API @ ''/articles'') NoBody)],
           st\<lparr>articles := d, ar_loading := False\<rparr>)
      | Rejected \<Rightarrow>
          ([Http (Request GET (API @ ''/articles'') NoBody), ToastError],
           st\<lparr>ar_loading := False\<rparr>))"

text \<open>The handler of the delete button of an article card.\<close>

definition deleteArticle ::
  "bool \<Rightarrow> string \<Rightarrow> unit outcome \<Rightarrow> article list outcome \<Rightarrow> articles_state handler" where
  "deleteArticle confirmed i deleted articlesRes st =
     (if \<not> confirmed then ([], st)
      else case deleted of
        Rejected \<Rightarrow> ([Http (Request DELETE (API @ ''/articles/'' @ i) NoBody), ToastError], st)
      | Resolved _ \<Rightarrow>
          (let (es, st') = fetchData_Articles articlesRes st
           in ([Http (Request DELETE (API @ ''/articles/'' @ i) NoBody), ToastSuccess] @ es,
               st')))"

record article_detail_state =
  ad_article :: "article option"
  ad_loading :: bool

definition fetchArticle :: "string \<Rightarrow> article outcome \<Rightarrow> article_detail_state handler" where
  "fetchArticle i fetched st =
     (case fetched of
        Resolved d \<Rightarrow>
          ([Http (Request GET (API @ ''/articles/'' @ i) NoBody)],
           st\<lparr>ad_article := Some d, ad_loading := False\<rparr>)
      | Rejected \<Rightarrow>
          ([Http (Request GET (API @ ''/articles/'' @ i) NoBody), ToastError],
           st\<lparr>ad_loading := False\<rparr>))"

section \<open>The dashboard\<close>

record stats =
  total_sources :: int
  active_sources :: int
  total_summaries :: int
  new_summaries :: int
  total_articles :: int

record dashboard_state =
  d_stats :: "stats option"
  recentSummaries :: "summary list"
  d_loading :: bool

definition dashboardRequests :: "effect list" where
  "dashboardRequests =
     [Http (Request GET (API @ ''/stats'') NoBody),
      Http (Request GET (API @ ''/summaries?limit=6'') NoBody)]"

fun fetchData_Dashboard ::
  "stats outcome \<Rightarrow> summary list outcome \<Rightarrow> dashboard_state handler" where
  "fetchData_Dashboard (Resolved s) (Resolved ss) st =
     (dashboardRequests,
      st\<lparr>d_stats := Some s, recentSummaries := take 6 ss, d_loading := False\<rparr>)"
| "fetchData_Dashboard statsRes summariesRes st =
     (dashboardRequests @ [ToastError], st\<lparr>d_loading := False\<rparr>)"

section \<open>Initial states and sample data\<close>

text \<open>The states the components start in, as their \<^verbatim>\<open>useState\<close> calls give them.\<close>

definition initialSources :: sources_state where
  "initialSources =
     \<lparr>sources = [], so_loading = True, dialogOpen = False, editingSource = None,
      formData = emptyForm\<rparr>"

definition initialSummaries :: summaries_state where
  "initialSummaries =
     \<lparr>summaries = [], filteredSummaries = [], sv_loading = True, categories = [], tags = [],
      selectedCategory = ''all'', selectedTag = ''all'', view = ''chronological'',
      selectedForArticle = [], compilingArticle = False, showCompileDialog = False,
      articleFormData = \<lparr>af_title = [], af_theme = []\<rparr>\<rparr>"

definition initialSummaryDetail :: summary_detail_state where
  "initialSummaryDetail = \<lparr>sd_summary = None, sd_loading = True\<rparr>"

definition initialSingleUrl :: single_url_state where
  "initialSingleUrl = \<lparr>su_url = [], su_result = None, su_loading = False, saveOption = False\<rparr>"

definition initialArticles :: articles_state where
  "initialArticles = \<lparr>articles = [], ar_loading = True\<rparr>"

definition initialArticleDetail :: article_detail_state where
  "initialArticleDetail = \<lparr>ad_article = None, ad_loading = True\<rparr>"

definition initialDashboard :: dashboard_state where
  "initialDashboard = \<lparr>d_stats = None, recentSummaries = [], d_loading = True\<rparr>"

text \<open>Sample data for the examples: a source, a summary and an article.\<close>

definition exampleSource :: "string nullable \<Rightarrow> string list nullable \<Rightarrow> source" where
  "exampleSource c ts =
     \<lparr>s_id = ''7'', s_name = ''Blog'', s_url = ''https://blog.example'', s_category = c,
      s_tags = ts, s_active = True, s_last_checked = Null\<rparr>"

definition exampleSummary :: "string \<Rightarrow> string nullable \<Rightarrow> int \<Rightarrow> summary" where
  "exampleSummary i c t =
     \<lparr>sm_id = i, sm_title = ''Title'', sm_summary = ''Text'', sm_url = ''https://blog.example/1'',
      sm_source_name = ''Blog'', sm_source_id = Val ''7'', sm_category = c,
      sm_tags = Val [''GPT''], sm_created_at = t, sm_is_new = True\<rparr>"

definition exampleArticle :: article where
  "exampleArticle =
     \<lparr>a_id = ''42'', a_title = ''Title'', a_theme = ''Theme'', a_content = ''Text'',
      a_tags = Val [], a_sources = [], a_source_references = Null, a_created_at = 0\<rparr>"

section \<open>The properties the specification names\<close>

text \<open>
  The two orders of the Summaries view in the specification's words: newest first, and by
  category ascending, a missing category compared as the empty string, newest first among
  equal categories.
\<close>

definition newestFirst :: "summary \<Rightarrow> summary \<Rightarrow> bool" where
  "newestFirst a b = (sm_created_at a \<ge> sm_created_at b)"

definition categoryThenRecency :: "collation \<Rightarrow> summary \<Rightarrow> summary \<Rightarrow> bool" where
  "categoryThenRecency localeCompare a b =
     (localeCompare (or_string (sm_category a) []) (or_string (sm_category b) []) < 0
      \<or> (localeCompare (or_string (sm_category a) []) (or_string (sm_category b) []) = 0
         \<and> sm_created_at a \<ge> sm_created_at b))"

text \<open>A string with no white space at its start and none at its end.\<close>

definition noOuterWhiteSpace :: "string \<Rightarrow> bool" where
  "noOuterWhiteSpace t = (t = [] \<or> (\<not> isWhiteSpace (hd t) \<and> \<not> isWhiteSpace (last t)))"

text \<open>
  Opening the edit dialog on a source and submitting the form as it is: \<^verbatim>\<open>handleEdit\<close>,
  then \<^verbatim>\<open>handleSubmit\<close> on the state it leaves. The result is the effects of the
  submission.
\<close>

definition editThenSubmit ::
  "source \<Rightarrow> unit outcome \<Rightarrow> source list outcome \<Rightarrow> sources_state \<Rightarrow> error + effect list" where
  "editThenSubmit src saved refetched st =
     (case handleEdit src st of
        Inl e \<Rightarrow> Inl e
      | Inr st1 \<Rightarrow> Inr (fst (handleSubmit saved refetched st1)))"

section \<open>Sorting and filtering the summaries\<close>

lemma mset_insertFromRight: "mset (insertFromRight c x rs) = add_mset x (mset rs)"
  by (induction rs) auto

lemma mset_foldl_insert:
  "mset (foldl (\<lambda>rs x. insertFromRight c x rs) acc xs) = mset acc + mset xs"
  by (induction xs arbitrary: acc) (auto simp: mset_insertFromRight)

lemma mset_array_sort: "mset (array_sort c xs) = mset xs"
  by (simp add: array_sort_def mset_foldl_insert)

lemma set_insertFromRight: "set (insertFromRight c x rs) = insert x (set rs)"
  by (induction rs) auto

text \<open>
  The sort orders the array by \<open>le\<close> when the comparator agrees with \<open>le\<close> on the
  elements of the array and \<open>le\<close> is transitive there. The sorted prefix is held in
  reverse, so it is sorted by the converse.
\<close>

lemma sorted_insertFromRight:
  assumes le1: "\<And>a b. a \<in> S \<Longrightarrow> b \<in> S \<Longrightarrow> \<not> c a b > 0 \<Longrightarrow> le a b"
    and le2: "\<And>a b. a \<in> S \<Longrightarrow> b \<in> S \<Longrightarrow> c a b > 0 \<Longrightarrow> le b a"
    and tr: "\<And>a b d. a \<in> S \<Longrightarrow> b \<in> S \<Longrightarrow> d \<in> S \<Longrightarrow> le a b \<Longrightarrow> le b d \<Longrightarrow> le a d"
  shows "x \<in> S \<Longrightarrow> set rs \<subseteq> S \<Longrightarrow> sorted_wrt (\<lambda>a b. le b a) rs \<Longrightarrow>
         sorted_wrt (\<lambda>a b. le b a) (insertFromRight c x rs)"
proof (induction rs)
  case Nil
  then show ?case by simp
next
  case (Cons y rs)
  show ?case
  proof (cases "c y x > 0")
    case True
    have "le x y" using le2[of y x] True Cons.prems by simp
    then show ?thesis using True Cons by (auto simp: set_insertFromRight)
  next
    case False
    have yx: "le y x" using le1[of y x] False Cons.prems by simp
    have "le z x" if "z \<in> set rs" for z
      using tr[of z y x] that yx Cons.prems by auto
    then show ?thesis using False yx Cons.prems by auto
  qed
qed

lemma sorted_foldl_insert:
  assumes le1: "\<And>a b. a \<in> S \<Longrightarrow> b \<in> S \<Longrightarrow> \<not> c a b > 0 \<Longrightarrow> le a b"
    and le2: "\<And>a b. a \<in> S \<Longrightarrow> b \<in> S \<Longrightarrow> c a b > 0 \<Longrightarrow> le b a"
    and tr: "\<And>a b d. a \<in> S \<Longrightarrow> b \<in> S \<Longrightarrow> d \<in> S \<Longrightarrow> le a b \<Longrightarrow> le b d \<Longrightarrow> le a d"
  shows "set xs \<subseteq> S \<Longrightarrow> set acc \<subseteq> S \<Longrightarrow> sorted_wrt (\<lambda>a b. le b a) acc \<Longrightarrow>
         sorted_wrt (\<lambda>a b. le b a) (foldl (\<lambda>rs x. insertFromRight c x rs) acc xs)"
proof (induction xs arbitrary: acc)
  case Nil
  then show ?case by simp
next
  case (Cons x xs)
  have "sorted_wrt (\<lambda>a b. le b a) (insertFromRight c x acc)"
    by (rule sorted_insertFromRight[where S=S and le=le], (rule le1; assumption),
        (rule le2; assumption), (rule tr; assumption), use Cons.prems in auto)
  moreover have "set (insertFromRight c x acc) \<subseteq> S"
    using Cons.prems by (simp add: set_insertFromRight)
  ultimately show ?case using Cons.IH[of "insertFromRight c x acc"] Cons.prems by simp
qed

lemma sorted_array_sort:
  assumes le1: "\<And>a b. a \<in> set xs \<Longrightarrow> b \<in> set xs \<Longrightarrow> \<not> c a b > 0 \<Longrightarrow> le a b"
    and le2: "\<And>a b. a \<in> set xs \<Longrightarrow> b \<in> set xs \<Longrightarrow> c a b > 0 \<Longrightarrow> le b a"
    and tr: "\<And>a b d. a \<in> set xs \<Longrightarrow> b \<in> set xs \<Longrightarrow> d \<in> set xs \<Longrightarrow>
               le a b \<Longrightarrow> le b d \<Longrightarrow> le a d"
  shows "sorted_wrt le (array_sort c xs)"
proof -
  have "sorted_wrt (\<lambda>a b. le b a) (foldl (\<lambda>rs x. insertFromRight c x rs) [] xs)"
    by (rule sorted_foldl_insert[where S="set xs" and le=le], (rule le1; assumption),
        (rule le2; assumption), (rule tr; assumption), simp_all)
  then show ?thesis by (simp add: array_sort_def sorted_wrt_rev)
qed

text \<open>
  What \<^verbatim>\<open>filterSummaries\<close> does get right. In every view but the category view the
  output is sorted newest first.
\<close>

lemma chronological_sorted:
  "view st \<noteq> ''category'' \<Longrightarrow>
   sorted_wrt newestFirst (filteredSummaries (filterSummaries localeCompare st))"
  by (auto simp: filterSummaries_def filtered_def Let_def newestFirst_def byRecency_def
      intro!: sorted_array_sort)

text \<open>
  In the category view the output is sorted by category, then newest first, when the
  collation is a strict order that tells any two different strings apart and the summaries
  of the list write a missing category in one way: two summaries whose categories are
  compared as the same string have the same \<open>sm_category\<close>.
\<close>

lemma category_sorted:
  assumes v: "view st = ''category''"
    and eq: "\<And>x y. (localeCompare x y = 0) = (x = y)"
    and anti: "\<And>x y. (localeCompare x y < 0) = (localeCompare y x > 0)"
    and tr: "\<And>x y z. localeCompare x y < 0 \<Longrightarrow> localeCompare y z < 0 \<Longrightarrow> localeCompare x z < 0"
    and uniform: "\<And>a b. a \<in> set (summaries st) \<Longrightarrow> b \<in> set (summaries st) \<Longrightarrow>
        or_string (sm_category a) [] = or_string (sm_category b) [] \<Longrightarrow>
        sm_category a = sm_category b"
  shows "sorted_wrt (categoryThenRecency localeCompare)
           (filteredSummaries (filterSummaries localeCompare st))"
proof -
  let ?k = "\<lambda>s. or_string (sm_category s) []"
  have key: "sorted_wrt (categoryThenRecency localeCompare)
               (array_sort (byCategory localeCompare) xs)"
    if sub: "set xs \<subseteq> set (summaries st)" for xs
  proof (rule sorted_array_sort)
    fix a b assume "a \<in> set xs" "b \<in> set xs" "\<not> 0 < byCategory localeCompare a b"
    then show "categoryThenRecency localeCompare a b"
      using sub uniform[of a b] eq[of "?k a" "?k b"]
      by (auto simp: byCategory_def categoryThenRecency_def split: if_splits)
  next
    fix a b assume "a \<in> set xs" "b \<in> set xs" "0 < byCategory localeCompare a b"
    then show "categoryThenRecency localeCompare b a"
      using sub uniform[of a b] eq[of "?k a" "?k b"] anti[of "?k b" "?k a"]
      by (auto simp: byCategory_def categoryThenRecency_def split: if_splits)
  next
    fix a b d
    assume "categoryThenRecency localeCompare a b" "categoryThenRecency localeCompare b d"
    then show "categoryThenRecency localeCompare a d"
      using eq tr[of "?k a" "?k b" "?k d"]
      by (auto simp: categoryThenRecency_def)
  qed
  show ?thesis using v by (auto simp: filterSummaries_def filtered_def Let_def intro!: key)
qed

text \<open>
  Claim C1. In the category view \<^verbatim>\<open>filterSummaries\<close> is to sort by category ascending, a
  missing category compared as the empty string, and newest first among equal categories.
  The comparator tests \<^verbatim>\<open>a.category === b.category\<close> before it compares by date, so a
  summary whose category is \<^verbatim>\<open>null\<close> and one whose category is the empty string are not
  compared by date: they compare as equal, and the stable sort leaves them as they came.
  On the list of an older summary with category \<^verbatim>\<open>null\<close> and a newer one with category
  \<^verbatim>\<open>""\<close> the output has the older one first, which is not the order of the claim. With a
  third, newest summary of category \<^verbatim>\<open>null\<close> after them the comparator is no longer
  consistent and the list stays as it is, so that two summaries of the very same category
  are oldest first.
\<close>

theorem category_view_missed_case:
  "filteredSummaries (filterSummaries compareCodeUnits
       (initialSummaries\<lparr>summaries := [exampleSummary ''1'' Null 1, exampleSummary ''2'' (Val []) 2],
                          view := ''category''\<rparr>)) =
     [exampleSummary ''1'' Null 1, exampleSummary ''2'' (Val []) 2]
   \<and> \<not> sorted_wrt (categoryThenRecency compareCodeUnits)
         [exampleSummary ''1'' Null 1, exampleSummary ''2'' (Val []) 2]
   \<and> filteredSummaries (filterSummaries compareCodeUnits
       (initialSummaries\<lparr>summaries := [exampleSummary ''1'' Null 1, exampleSummary ''2'' (Val []) 2,
                                        exampleSummary ''3'' Null 3],
                          view := ''category''\<rparr>)) =
     [exampleSummary ''1'' Null 1, exampleSummary ''2'' (Val []) 2, exampleSummary ''3'' Null 3]
   \<and> sm_category (exampleSummary ''1'' Null 1) = sm_category (exampleSummary ''3'' Null 3)
   \<and> sm_created_at (exampleSummary ''1'' Null 1) < sm_created_at (exampleSummary ''3'' Null 3)"
  by (simp add: filterSummaries_def filtered_def initialSummaries_def array_sort_def
      byCategory_def exampleSummary_def categoryThenRecency_def)

text \<open>
  Claim C2. \<^verbatim>\<open>filterSummaries\<close> keeps exactly the summaries that pass both filters, each
  as often as the input has it: a summary passes the category filter when the selected
  category is \<^verbatim>\<open>"all"\<close> or is its category, and the tag filter when the selected tag is
  \<^verbatim>\<open>"all"\<close> or its tags are a list that holds the selected tag. This holds whatever the
  view and the collation are.
\<close>

theorem filterSummaries_keeps:
  "mset (filteredSummaries (filterSummaries localeCompare st)) =
   mset (filter (\<lambda>s. (selectedCategory st = ''all'' \<or> sm_category s = Val (selectedCategory st)) \<and>
                      (selectedTag st = ''all'' \<or>
                       (\<exists>ts. sm_tags s = Val ts \<and> selectedTag st \<in> set ts)))
          (summaries st))"
proof -
  have tag: "hasTag t = (\<lambda>s. \<exists>ts. sm_tags s = Val ts \<and> t \<in> set ts)" for t
    by (rule ext) (auto simp: hasTag_def split: nullable.splits)
  show ?thesis
    by (simp add: filterSummaries_def filtered_def Let_def mset_array_sort tag conj_commute
        flip: mset_filter)
qed

section \<open>Selecting summaries and compiling an article\<close>

lemma filter_neq_removeAll: "filter (\<lambda>s. s \<noteq> i) xs = removeAll i xs"
  by (induction xs) auto

text \<open>
  Claim C3. \<^verbatim>\<open>handleCompileArticle\<close> issues the POST to \<^verbatim>\<open>/api/articles\<close> with the title
  and theme of the form and the selected ids if and only if at least two summaries are
  selected, whatever the backend answers; with fewer than two it shows an error toast,
  issues no request and leaves the state as it is.
\<close>

theorem handleCompileArticle_guard:
  "(Request POST ''/api/articles''
      (ArticleBody \<lparr>ap_title = af_title (articleFormData st),
                    ap_theme = af_theme (articleFormData st),
                    ap_summary_ids = selectedForArticle st\<rparr>)
      \<in> set (requests (fst (handleCompileArticle compiled st))))
     = (2 \<le> length (selectedForArticle st))
   \<and> (2 \<le> length (selectedForArticle st) \<longrightarrow>
        requests (fst (handleCompileArticle compiled st)) =
          [Request POST ''/api/articles''
            (ArticleBody \<lparr>ap_title = af_title (articleFormData st),
                          ap_theme = af_theme (articleFormData st),
                          ap_summary_ids = selectedForArticle st\<rparr>)])
   \<and> (length (selectedForArticle st) < 2 \<longrightarrow>
        handleCompileArticle compiled st = ([ToastError], st))"
  by (cases compiled) (auto simp: handleCompileArticle_def compileRequest_def API_def)

theorem handleCompileArticle_guard_witness:
  "2 \<le> length (selectedForArticle (initialSummaries\<lparr>selectedForArticle := [''1'', ''2'']\<rparr>))
   \<and> requests (fst (handleCompileArticle (Resolved exampleArticle)
        (initialSummaries\<lparr>selectedForArticle := [''1'', ''2'']\<rparr>))) =
       [Request POST ''/api/articles''
         (ArticleBody \<lparr>ap_title = [], ap_theme = [], ap_summary_ids = [''1'', ''2'']\<rparr>)]
   \<and> length (selectedForArticle (initialSummaries\<lparr>selectedForArticle := [''1'']\<rparr>)) < 2
   \<and> handleCompileArticle (Resolved exampleArticle)
        (initialSummaries\<lparr>selectedForArticle := [''1'']\<rparr>) =
       ([ToastError], initialSummaries\<lparr>selectedForArticle := [''1'']\<rparr>)"
  using handleCompileArticle_guard[of "initialSummaries\<lparr>selectedForArticle := [''1'', ''2'']\<rparr>"
      "Resolved exampleArticle"]
    handleCompileArticle_guard[of "initialSummaries\<lparr>selectedForArticle := [''1'']\<rparr>"
      "Resolved exampleArticle"]
  by (simp add: initialSummaries_def)

text \<open>
  Claim C8, as the claim states it, fails: toggling an id that is selected, twice, moves it
  to the end of the selection. The selection \<^verbatim>\<open>["a", "b"]\<close> becomes \<^verbatim>\<open>["b", "a"]\<close>, and the
  selection is sent in its order as \<^verbatim>\<open>summary_ids\<close>.
\<close>

theorem toggle_twice_counterexample:
  "distinct [''a'', ''b'']
   \<and> selectedForArticle (toggleSummarySelection ''a'' (toggleSummarySelection ''a''
       (initialSummaries\<lparr>selectedForArticle := [''a'', ''b'']\<rparr>))) = [''b'', ''a'']
   \<and> [''b'', ''a''] \<noteq> [''a'', ''b'']"
  by (simp add: toggleSummarySelection_def initialSummaries_def)

text \<open>
  Claim C8, amended. On a selection with no duplicate, one application of
  \<^verbatim>\<open>toggleSummarySelection\<close> removes the id when it is selected and appends it when it is
  not, and the selection stays without duplicates. Two applications give a selection of
  the same ids: the selection itself when the id was not selected, and the selection with
  the id moved to its end when it was.
\<close>

theorem toggleSummarySelection_twice:
  assumes "distinct (selectedForArticle st)"
  shows "set (selectedForArticle (toggleSummarySelection i (toggleSummarySelection i st))) =
           set (selectedForArticle st)
       \<and> distinct (selectedForArticle (toggleSummarySelection i st))
       \<and> selectedForArticle (toggleSummarySelection i st) =
           (if i \<in> set (selectedForArticle st) then removeAll i (selectedForArticle st)
            else selectedForArticle st @ [i])
       \<and> selectedForArticle (toggleSummarySelection i (toggleSummarySelection i st)) =
           (if i \<in> set (selectedForArticle st) then removeAll i (selectedForArticle st) @ [i]
            else selectedForArticle st)"
  using assms
  by (auto simp: toggleSummarySelection_def filter_neq_removeAll distinct_removeAll)

theorem toggleSummarySelection_twice_witness:
  "distinct (selectedForArticle (initialSummaries\<lparr>selectedForArticle := [''a'', ''b'']\<rparr>))
   \<and> selectedForArticle (toggleSummarySelection ''c''
        (initialSummaries\<lparr>selectedForArticle := [''a'', ''b'']\<rparr>)) = [''a'', ''b'', ''c'']
   \<and> selectedForArticle (toggleSummarySelection ''c'' (toggleSummarySelection ''c''
        (initialSummaries\<lparr>selectedForArticle := [''a'', ''b'']\<rparr>))) = [''a'', ''b'']
   \<and> selectedForArticle (toggleSummarySelection ''a''
        (initialSummaries\<lparr>selectedForArticle := [''a'', ''b'']\<rparr>)) = [''b'']"
proof -
  have d: "distinct (selectedForArticle (initialSummaries\<lparr>selectedForArticle := [''a'', ''b'']\<rparr>))"
    by simp
  show ?thesis
    using d toggleSummarySelection_twice[OF d, of "''c''"]
      toggleSummarySelection_twice[OF d, of "''a''"]
    by simp
qed

section \<open>The badges of a summary\<close>

text \<open>
  Claim C6. A summary card shows the manual badge if and only if \<open>source_id\<close> is
  \<^verbatim>\<open>null\<close> or absent, and the automatic badge if and only if it is present; it shows
  exactly one of the two, and which one depends on nothing but this: two summaries that
  agree on whether \<open>source_id\<close> is missing show the same one.
\<close>

theorem badge_of_source_id:
  "(ManualBadge \<in> set (badges s)) = (sm_source_id s = Null \<or> sm_source_id s = Undefined)
   \<and> (AutoBadge \<in> set (badges s)) = (\<exists>v. sm_source_id s = Val v)
   \<and> length (filter (\<lambda>b. b = ManualBadge \<or> b = AutoBadge) (badges s)) = 1
   \<and> (\<forall>s'. (sm_source_id s' = Null \<or> sm_source_id s' = Undefined) =
            (sm_source_id s = Null \<or> sm_source_id s = Undefined) \<longrightarrow>
          filter (\<lambda>b. b = ManualBadge \<or> b = AutoBadge) (badges s') =
          filter (\<lambda>b. b = ManualBadge \<or> b = AutoBadge) (badges s))"
  by (cases "sm_source_id s") (auto simp: badges_def isAutomatic_def)

theorem badge_of_source_id_witness:
  "badges (exampleSummary ''1'' Null 1) = [NewBadge, AutoBadge]
   \<and> badges ((exampleSummary ''1'' Null 1)\<lparr>sm_source_id := Null\<rparr>) = [NewBadge, ManualBadge]
   \<and> badges ((exampleSummary ''2'' Null 2)\<lparr>sm_source_id := Undefined, sm_is_new := False\<rparr>) =
       [ManualBadge]
   \<and> filter (\<lambda>b. b = ManualBadge \<or> b = AutoBadge)
        (badges ((exampleSummary ''2'' Null 2)\<lparr>sm_source_id := Undefined, sm_is_new := False\<rparr>)) =
      filter (\<lambda>b. b = ManualBadge \<or> b = AutoBadge)
        (badges ((exampleSummary ''1'' Null 1)\<lparr>sm_source_id := Null\<rparr>))"
  using badge_of_source_id[of "(exampleSummary ''1'' Null 1)\<lparr>sm_source_id := Null\<rparr>"]
  by (simp add: badges_def isAutomatic_def exampleSummary_def)

section \<open>Reading a summary\<close>

text \<open>
  Claim C9. When the GET of the summary detail view succeeds, \<^verbatim>\<open>fetchSummary\<close> issues the
  POST to mark-read if and only if the summary it fetched is new; for a summary that is not
  new the GET is its only request, and so it is when the GET is rejected.
\<close>

theorem fetchSummary_mark_read:
  "requests (fst (fetchSummary i (Resolved d) marked st)) =
     (if sm_is_new d
      then [Request GET (''/api/summaries/'' @ i) NoBody,
            Request POST (''/api/summaries/'' @ i @ ''/mark-read'') NoBody]
      else [Request GET (''/api/summaries/'' @ i) NoBody])
   \<and> requests (fst (fetchSummary i Rejected marked st)) =
       [Request GET (''/api/summaries/'' @ i) NoBody]"
  by (cases marked) (simp_all add: fetchSummary_def API_def)

section \<open>Submitting the source form\<close>

lemma join_Cons: "join sep (x # xs) = x @ (if xs = [] then [] else sep @ join sep xs)"
  by (cases xs) auto

lemma splitAcc_not_Nil: "splitAcc sep acc s \<noteq> []"
  by (induction s arbitrary: acc) auto

text \<open>
  The pieces of \<^verbatim>\<open>split\<close> are the text between the separators: joined with the
  separator they give the text back, and no piece holds the separator.
\<close>

lemma join_splitAcc: "join [sep] (splitAcc sep acc s) = rev acc @ s"
  by (induction s arbitrary: acc) (auto simp: join_Cons splitAcc_not_Nil)

lemma splitAcc_pieces:
  "sep \<notin> set acc \<Longrightarrow> list_all (\<lambda>p. sep \<notin> set p) (splitAcc sep acc s)"
  by (induction s arbitrary: acc) auto

text \<open>
  \<^verbatim>\<open>trim\<close> removes white space around the text and nothing else: the text is white
  space, then the trimmed text, then white space, and the trimmed text neither starts nor
  ends with white space.
\<close>

lemma trim_spec:
  "\<exists>l r. s = l @ trim s @ r \<and> list_all isWhiteSpace l \<and> list_all isWhiteSpace r
     \<and> noOuterWhiteSpace (trim s)"
proof -
  define d where "d = dropWhile isWhiteSpace s"
  define l where "l = takeWhile isWhiteSpace s"
  define r where "r = rev (takeWhile isWhiteSpace (rev d))"
  have t: "trim s = rev (dropWhile isWhiteSpace (rev d))"
    by (simp add: trim_def d_def)
  have "rev (dropWhile isWhiteSpace (rev d)) @ rev (takeWhile isWhiteSpace (rev d)) =
        rev (takeWhile isWhiteSpace (rev d) @ dropWhile isWhiteSpace (rev d))"
    by (simp only: rev_append)
  also have "\<dots> = d" by simp
  finally have d: "d = trim s @ r"
    by (simp add: t r_def)
  have "s = l @ d"
    by (simp add: l_def d_def)
  with d have s: "s = l @ trim s @ r"
    by simp
  have wl: "list_all isWhiteSpace l"
    by (simp add: l_def list_all_iff) (meson set_takeWhileD)
  have wr: "list_all isWhiteSpace r"
    by (simp add: r_def list_all_iff) (meson set_takeWhileD)
  have n: "noOuterWhiteSpace (trim s)"
  proof (cases "trim s = []")
    case True
    then show ?thesis by (simp add: noOuterWhiteSpace_def)
  next
    case False
    then have "dropWhile isWhiteSpace (rev d) \<noteq> []" by (simp add: t)
    then have "\<not> isWhiteSpace (hd (dropWhile isWhiteSpace (rev d)))"
      by (rule hd_dropWhile)
    then have la: "\<not> isWhiteSpace (last (trim s))"
      by (simp add: t last_rev)
    have "d \<noteq> []" using False d by auto
    then have "\<not> isWhiteSpace (hd d)" unfolding d_def by (rule hd_dropWhile)
    moreover have "hd d = hd (trim s)" using d False by (metis hd_append2)
    ultimately show ?thesis using la by (simp add: noOuterWhiteSpace_def)
  qed
  show ?thesis using s wl wr n by blast
qed

text \<open>
  Claim C5. Submitting the source form issues first one request whose payload holds the
  name and the url of the form, as category \<^verbatim>\<open>null\<close> when the field is empty and the
  field otherwise, and as tags the empty list when the field is empty and otherwise the
  pieces of the field between its commas, each trimmed of the white space around it. The
  request is a POST to \<^verbatim>\<open>/api/sources\<close> when no source is being edited and a PUT to
  \<^verbatim>\<open>/api/sources/{id}\<close> when one is. Whatever else the handler requests is the GET that
  fetches the sources again.
\<close>

theorem handleSubmit_request:
  "\<exists>pieces rest.
     fst (handleSubmit saved refetched st) =
       Http (Request (case editingSource st of None \<Rightarrow> POST | Some src \<Rightarrow> PUT)
              (case editingSource st of None \<Rightarrow> ''/api/sources''
               | Some src \<Rightarrow> ''/api/sources/'' @ s_id src)
              (SourceBody
                \<lparr>p_name = f_name (formData st), p_url = f_url (formData st),
                 p_category = (if f_category (formData st) = [] then Null
                               else Val (f_category (formData st))),
                 p_tags = (if f_tags (formData st) = [] then [] else map trim pieces)\<rparr>)) # rest
     \<and> join '','' pieces = f_tags (formData st)
     \<and> list_all (\<lambda>p. CHR '','' \<notin> set p) pieces
     \<and> list_all (\<lambda>p. \<exists>l r. p = l @ trim p @ r \<and> list_all isWhiteSpace l
                      \<and> list_all isWhiteSpace r \<and> noOuterWhiteSpace (trim p)) pieces
     \<and> list_all (\<lambda>r. r = Request GET ''/api/sources'' NoBody) (requests rest)"
proof -
  let ?pieces = "split_on (CHR '','') (f_tags (formData st))"
  have j: "join '','' ?pieces = f_tags (formData st)"
    using join_splitAcc[of "CHR '',''" "[]"] by (simp add: split_on_def)
  have c: "list_all (\<lambda>p. CHR '','' \<notin> set p) ?pieces"
    using splitAcc_pieces[of "CHR '',''" "[]"] by (simp add: split_on_def)
  have t: "list_all (\<lambda>p. \<exists>l r. p = l @ trim p @ r \<and> list_all isWhiteSpace l
                      \<and> list_all isWhiteSpace r \<and> noOuterWhiteSpace (trim p)) ?pieces"
    using trim_spec by (simp add: list_all_iff)
  have "\<exists>rest. fst (handleSubmit saved refetched st) =
       Http (Request (case editingSource st of None \<Rightarrow> POST | Some src \<Rightarrow> PUT)
              (case editingSource st of None \<Rightarrow> ''/api/sources''
               | Some src \<Rightarrow> ''/api/sources/'' @ s_id src)
              (SourceBody
                \<lparr>p_name = f_name (formData st), p_url = f_url (formData st),
                 p_category = (if f_category (formData st) = [] then Null
                               else Val (f_category (formData st))),
                 p_tags = (if f_tags (formData st) = [] then [] else map trim ?pieces)\<rparr>)) # rest
       \<and> list_all (\<lambda>r. r = Request GET ''/api/sources'' NoBody) (requests rest)"
    by (cases saved; cases refetched; cases "editingSource st")
      (simp_all add: handleSubmit_def fetchSources_def submitRequest_def payload_def or_null_def
        API_def)
  with j c t show ?thesis by blast
qed

text \<open>
  The form with the tags \<^verbatim>\<open>" GPT , Open Source"\<close> and no category, submitted as a new
  source.
\<close>

lemma handleSubmit_example:
  "fst (handleSubmit Rejected Rejected
     (initialSources\<lparr>formData := \<lparr>f_name = ''Blog'', f_url = ''https://blog.example'',
                                   f_category = [], f_tags = '' GPT , Open Source''\<rparr>\<rparr>)) =
   [Http (Request POST ''/api/sources''
      (SourceBody \<lparr>p_name = ''Blog'', p_url = ''https://blog.example'', p_category = Null,
                    p_tags = [''GPT'', ''Open Source'']\<rparr>)),
    ToastError]"
  by (simp add: handleSubmit_def submitRequest_def payload_def or_null_def API_def
      initialSources_def split_on_def trim_def isWhiteSpace_def)

text \<open>
  A field of white space only is not empty: the tags are then one empty tag, not the empty
  list.
\<close>

lemma payload_of_white_space:
  "p_tags (payload \<lparr>f_name = ''Blog'', f_url = ''https://blog.example'', f_category = [],
                    f_tags = '' ''\<rparr>) = [[]]"
  by (simp add: payload_def split_on_def trim_def isWhiteSpace_def)

section \<open>Editing a source\<close>

lemma splitAcc_no_sep: "sep \<notin> set t \<Longrightarrow> splitAcc sep acc t = [rev acc @ t]"
  by (induction t arbitrary: acc) auto

lemma splitAcc_piece:
  "sep \<notin> set t \<Longrightarrow> splitAcc sep acc (t @ sep # rest) = (rev acc @ t) # splitAcc sep [] rest"
  by (induction t arbitrary: acc) auto

text \<open>
  Splitting at the commas what \<^verbatim>\<open>join(", ")\<close> made of tags without commas gives the tags
  back, each but the first after a space.
\<close>

lemma splitAcc_join:
  "ts \<noteq> [] \<Longrightarrow> list_all (\<lambda>t. CHR '','' \<notin> set t) ts \<Longrightarrow>
   splitAcc (CHR '','') acc (join '', '' ts) = (rev acc @ hd ts) # map ((#) CHR '' '') (tl ts)"
proof (induction "'', ''" ts arbitrary: acc rule: join.induct)
  case 1
  then show ?case by simp
next
  case (2 x)
  then show ?case by (simp add: splitAcc_no_sep)
next
  case (3 x y ys)
  have "splitAcc (CHR '','') acc (join '', '' (x # y # ys)) =
        (rev acc @ x) # splitAcc (CHR '','') [] (CHR '' '' # join '', '' (y # ys))"
    using "3.prems" splitAcc_piece[of "CHR '',''" x acc "CHR '' '' # join '', '' (y # ys)"]
    by simp
  also have "splitAcc (CHR '','') [] (CHR '' '' # join '', '' (y # ys)) =
             splitAcc (CHR '','') [CHR '' ''] (join '', '' (y # ys))"
    by simp
  also have "\<dots> = (CHR '' '' # y) # map ((#) CHR '' '') ys"
    using "3.hyps"[of "[CHR '' '']"] "3.prems" by simp
  finally show ?case by simp
qed

lemma trim_id: "noOuterWhiteSpace t \<Longrightarrow> trim t = t"
proof (cases t)
  case Nil
  then show ?thesis by (simp add: trim_def)
next
  case (Cons a u)
  assume "noOuterWhiteSpace t"
  with Cons have h: "\<not> isWhiteSpace a" and l: "\<not> isWhiteSpace (last t)"
    by (auto simp: noOuterWhiteSpace_def)
  have "dropWhile isWhiteSpace t = t" using Cons h by simp
  moreover have "dropWhile isWhiteSpace (rev t) = rev t"
    using Cons l by (simp add: dropWhile_eq_self_iff hd_rev del: rev.simps)
  ultimately show ?thesis by (simp add: trim_def)
qed

lemma trim_space: "noOuterWhiteSpace t \<Longrightarrow> trim (CHR '' '' # t) = t"
proof -
  assume a: "noOuterWhiteSpace t"
  have "trim (CHR '' '' # t) = trim t"
    by (simp add: trim_def isWhiteSpace_def)
  with a show ?thesis by (simp add: trim_id)
qed

lemma join_empty: "(join '', '' ts = []) = (ts = [] \<or> ts = [[]])"
  by (induction "'', ''" ts rule: join.induct) auto

lemma tags_roundtrip:
  assumes "list_all (\<lambda>t. CHR '','' \<notin> set t \<and> noOuterWhiteSpace t) ts" "ts \<noteq> [[]]"
  shows "(if join '', '' ts \<noteq> [] then map trim (split_on (CHR '','') (join '', '' ts)) else [])
         = ts"
proof (cases ts)
  case Nil
  then show ?thesis by simp
next
  case (Cons t us)
  with assms have ne: "join '', '' ts \<noteq> []" by (simp add: join_empty)
  have c: "list_all (\<lambda>t. CHR '','' \<notin> set t) ts" and w: "list_all noOuterWhiteSpace ts"
    using assms(1) by (simp_all add: list_all_iff)
  have "split_on (CHR '','') (join '', '' ts) = t # map ((#) CHR '' '') us"
    using splitAcc_join[of ts "[]"] c Cons by (simp add: split_on_def)
  moreover have "trim t = t" using w Cons by (simp add: trim_id)
  moreover have "map (trim \<circ> (#) CHR '' '') us = us"
    using w Cons by (auto simp: list_all_iff trim_space intro: map_idI)
  ultimately show ?thesis using ne Cons by simp
qed

text \<open>
  Claim C10, as the claim states it, fails on a source whose tags are one empty tag: the
  tag has no comma and no white space, \<^verbatim>\<open>join\<close> makes the empty text of it, and
  \<^verbatim>\<open>handleSubmit\<close> sends the empty list for an empty field. The client itself makes such a
  source of a tags field that holds one space.
\<close>

theorem edit_submit_counterexample:
  "list_all (\<lambda>t. CHR '','' \<notin> set t \<and> noOuterWhiteSpace t) [[]]
   \<and> editThenSubmit (exampleSource Null (Val [[]])) Rejected Rejected initialSources =
       Inr [Http (Request PUT ''/api/sources/7''
                   (SourceBody \<lparr>p_name = ''Blog'', p_url = ''https://blog.example'',
                                 p_category = Null, p_tags = []\<rparr>)),
            ToastError]
   \<and> [] \<noteq> [[] :: string]"
  by (simp add: editThenSubmit_def handleEdit_def handleSubmit_def submitRequest_def payload_def
      exampleSource_def initialSources_def or_null_def API_def noOuterWhiteSpace_def)

text \<open>
  Claim C10, amended. For every source whose tags are a list other than the list of one
  empty tag, each tag with no comma and with no white space at its start or end, opening
  the edit dialog and submitting the form as it is issues first a PUT to
  \<^verbatim>\<open>/api/sources/{id}\<close> whose name, url and tags are the source's, and whose category is
  the source's, \<^verbatim>\<open>null\<close> when the source has none (it is absent, \<^verbatim>\<open>null\<close> or empty).
\<close>

theorem edit_submit_roundtrip:
  assumes "s_tags src = Val ts"
    and "list_all (\<lambda>t. CHR '','' \<notin> set t \<and> noOuterWhiteSpace t) ts"
    and "ts \<noteq> [[]]"
  shows "\<exists>rest. editThenSubmit src saved refetched st =
           Inr (Http (Request PUT (''/api/sources/'' @ s_id src)
                  (SourceBody \<lparr>p_name = s_name src, p_url = s_url src,
                     p_category = (if s_category src = Undefined \<or> s_category src = Val []
                                   then Null else s_category src),
                     p_tags = ts\<rparr>)) # rest)"
proof -
  have cat: "or_null (or_string c []) = (if c = Undefined \<or> c = Val [] then Null else c)" for c
    by (cases c) (auto simp: or_null_def)
  show ?thesis
    using assms(1) tags_roundtrip[OF assms(2,3)]
    by (cases saved)
      (auto simp: editThenSubmit_def handleEdit_def handleSubmit_def submitRequest_def payload_def
        API_def cat split: prod.splits simp del: or_string.simps)
qed

theorem edit_submit_roundtrip_witness:
  "s_tags (exampleSource (Val ''LLMs'') (Val [''GPT'', ''Open Source''])) =
     Val [''GPT'', ''Open Source'']
   \<and> list_all (\<lambda>t. CHR '','' \<notin> set t \<and> noOuterWhiteSpace t) [''GPT'', ''Open Source'']
   \<and> [''GPT'', ''Open Source''] \<noteq> [[]]
   \<and> editThenSubmit (exampleSource (Val ''LLMs'') (Val [''GPT'', ''Open Source'']))
        Rejected Rejected initialSources =
       Inr [Http (Request PUT ''/api/sources/7''
                   (SourceBody \<lparr>p_name = ''Blog'', p_url = ''https://blog.example'',
                                 p_category = Val ''LLMs'',
                                 p_tags = [''GPT'', ''Open Source'']\<rparr>)),
            ToastError]"
proof -
  have a: "s_tags (exampleSource (Val ''LLMs'') (Val [''GPT'', ''Open Source''])) =
     Val [''GPT'', ''Open Source'']"
    by (simp add: exampleSource_def)
  have b: "list_all (\<lambda>t. CHR '','' \<notin> set t \<and> noOuterWhiteSpace t) [''GPT'', ''Open Source'']"
    by (simp add: noOuterWhiteSpace_def isWhiteSpace_def)
  have c: "[''GPT'', ''Open Source''] \<noteq> [[]]"
    by simp
  have d: "fst (handleSubmit Rejected Rejected st) = [Http (submitRequest st), ToastError]" for st
    by (simp add: handleSubmit_def)
  show ?thesis
    using a b c edit_submit_roundtrip[OF a b c, of Rejected Rejected initialSources]
    by (auto simp: exampleSource_def editThenSubmit_def handleEdit_def d)
qed

section \<open>Rejected requests and refetching\<close>

lemma requests_fetchData_Summaries:
  "requests (fst (fetchData_Summaries summariesRes categoriesRes tagsRes st)) =
     [Request GET ''/api/summaries'' NoBody, Request GET ''/api/categories'' NoBody,
      Request GET ''/api/tags'' NoBody]"
  by (cases "(summariesRes, categoriesRes, tagsRes, st)" rule: fetchData_Summaries.cases)
    (simp_all add: summariesRequests_def API_def)

lemma fetchData_Summaries_rejected:
  "summariesRes = Rejected \<or> categoriesRes = Rejected \<or> tagsRes = Rejected \<Longrightarrow>
   fetchData_Summaries summariesRes categoriesRes tagsRes st =
     (summariesRequests @ [ToastError], st\<lparr>sv_loading := False\<rparr>)"
  by (cases "(summariesRes, categoriesRes, tagsRes, st)" rule: fetchData_Summaries.cases) auto

lemma fetchData_Dashboard_rejected:
  "statsRes = Rejected \<or> summariesRes = Rejected \<Longrightarrow>
   fetchData_Dashboard statsRes summariesRes st =
     (dashboardRequests @ [ToastError], st\<lparr>d_loading := False\<rparr>)"
  by (cases "(statsRes, summariesRes, st)" rule: fetchData_Dashboard.cases) auto

text \<open>
  Claim C4. When the request of an operation is rejected, the handler returns, having
  issued each of its requests once and shown an error toast after them, and it leaves the
  state of its view as it was but for the loading flags: the lists of sources, summaries
  and articles, the selection, the filters and the contents of the forms are those of the
  state before. The operations are the fetches of the six views, the submission, deletion
  and toggling of a source, the deletion of a summary and of an article, the compilation of
  an article and the processing of a URL. The single URL view clears the result of its
  previous submission when the form is submitted, before the request; its form, the url and
  the save switch, stays. When the mark-read request of the detail view is rejected the
  view keeps the summary that its GET returned.
\<close>

theorem rejected_request_keeps_state:
  "fetchSources Rejected sst =
     ([Http (Request GET ''/api/sources'' NoBody), ToastError], sst\<lparr>so_loading := False\<rparr>)
   \<and> handleSubmit Rejected refetched sst = ([Http (submitRequest sst), ToastError], sst)
   \<and> handleDelete True i Rejected refetched sst =
       ([Http (Request DELETE (''/api/sources/'' @ i) NoBody), ToastError], sst)
   \<and> handleToggle i Rejected refetched sst =
       ([Http (Request POST (''/api/sources/'' @ i @ ''/toggle'') NoBody), ToastError], sst)
   \<and> (summariesRes = Rejected \<or> categoriesRes = Rejected \<or> tagsRes = Rejected \<longrightarrow>
       fetchData_Summaries summariesRes categoriesRes tagsRes mst =
         ([Http (Request GET ''/api/summaries'' NoBody),
           Http (Request GET ''/api/categories'' NoBody),
           Http (Request GET ''/api/tags'' NoBody), ToastError],
          mst\<lparr>sv_loading := False\<rparr>))
   \<and> (2 \<le> length (selectedForArticle mst) \<longrightarrow>
       handleCompileArticle Rejected mst =
         ([Http (compileRequest mst), ToastError], mst\<lparr>compilingArticle := False\<rparr>))
   \<and> deleteSummary True i Rejected summariesRes categoriesRes tagsRes mst =
       ([Http (Request DELETE (''/api/summaries/'' @ i) NoBody), ToastError], mst)
   \<and> fetchSummary i Rejected marked dst =
       ([Http (Request GET (''/api/summaries/'' @ i) NoBody), ToastError],
        dst\<lparr>sd_loading := False\<rparr>)
   \<and> (sm_is_new d \<longrightarrow>
       fetchSummary i (Resolved d) Rejected dst =
         ([Http (Request GET (''/api/summaries/'' @ i) NoBody),
           Http (Request POST (''/api/summaries/'' @ i @ ''/mark-read'') NoBody), ToastError],
          dst\<lparr>sd_summary := Some d, sd_loading := False\<rparr>))
   \<and> handleSubmit_SingleUrl Rejected ust =
       ([Http (Request POST ''/api/process-url''
                 (UrlBody \<lparr>up_url = su_url ust, up_save = saveOption ust\<rparr>)), ToastError],
        ust\<lparr>su_result := None, su_loading := False\<rparr>)
   \<and> fetchData_Articles Rejected ast =
       ([Http (Request GET ''/api/articles'' NoBody), ToastError], ast\<lparr>ar_loading := False\<rparr>)
   \<and> deleteArticle True i Rejected articlesRes ast =
       ([Http (Request DELETE (''/api/articles/'' @ i) NoBody), ToastError], ast)
   \<and> fetchArticle i Rejected adst =
       ([Http (Request GET (''/api/articles/'' @ i) NoBody), ToastError],
        adst\<lparr>ad_loading := False\<rparr>)
   \<and> (statsRes = Rejected \<or> recentRes = Rejected \<longrightarrow>
       fetchData_Dashboard statsRes recentRes bst =
         ([Http (Request GET ''/api/stats'' NoBody),
           Http (Request GET ''/api/summaries?limit=6'' NoBody), ToastError],
          bst\<lparr>d_loading := False\<rparr>))"
proof (intro conjI impI)
  show "fetchSources Rejected sst =
     ([Http (Request GET ''/api/sources'' NoBody), ToastError], sst\<lparr>so_loading := False\<rparr>)"
    by (simp add: fetchSources_def API_def)
  show "handleSubmit Rejected refetched sst = ([Http (submitRequest sst), ToastError], sst)"
    by (simp add: handleSubmit_def)
  show "handleDelete True i Rejected refetched sst =
       ([Http (Request DELETE (''/api/sources/'' @ i) NoBody), ToastError], sst)"
    by (simp add: handleDelete_def API_def)
  show "handleToggle i Rejected refetched sst =
       ([Http (Request POST (''/api/sources/'' @ i @ ''/toggle'') NoBody), ToastError], sst)"
    by (simp add: handleToggle_def API_def)
  show "fetchData_Summaries summariesRes categoriesRes tagsRes mst =
         ([Http (Request GET ''/api/summaries'' NoBody),
           Http (Request GET ''/api/categories'' NoBody),
           Http (Request GET ''/api/tags'' NoBody), ToastError],
          mst\<lparr>sv_loading := False\<rparr>)"
    if "summariesRes = Rejected \<or> categoriesRes = Rejected \<or> tagsRes = Rejected"
    using fetchData_Summaries_rejected[OF that] by (simp add: summariesRequests_def API_def)
  show "handleCompileArticle Rejected mst =
         ([Http (compileRequest mst), ToastError], mst\<lparr>compilingArticle := False\<rparr>)"
    if "2 \<le> length (selectedForArticle mst)"
    using that by (simp add: handleCompileArticle_def)
  show "deleteSummary True i Rejected summariesRes categoriesRes tagsRes mst =
       ([Http (Request DELETE (''/api/summaries/'' @ i) NoBody), ToastError], mst)"
    by (simp add: deleteSummary_def API_def)
  show "fetchSummary i Rejected marked dst =
       ([Http (Request GET (''/api/summaries/'' @ i) NoBody), ToastError],
        dst\<lparr>sd_loading := False\<rparr>)"
    by (simp add: fetchSummary_def API_def)
  show "fetchSummary i (Resolved d) Rejected dst =
         ([Http (Request GET (''/api/summaries/'' @ i) NoBody),
           Http (Request POST (''/api/summaries/'' @ i @ ''/mark-read'') NoBody), ToastError],
          dst\<lparr>sd_summary := Some d, sd_loading := False\<rparr>)"
    if "sm_is_new d"
    using that by (simp add: fetchSummary_def API_def)
  show "handleSubmit_SingleUrl Rejected ust =
       ([Http (Request POST ''/api/process-url''
                 (UrlBody \<lparr>up_url = su_url ust, up_save = saveOption ust\<rparr>)), ToastError],
        ust\<lparr>su_result := None, su_loading := False\<rparr>)"
    by (simp add: handleSubmit_SingleUrl_def API_def)
  show "fetchData_Articles Rejected ast =
       ([Http (Request GET ''/api/articles'' NoBody), ToastError], ast\<lparr>ar_loading := False\<rparr>)"
    by (simp add: fetchData_Articles_def API_def)
  show "deleteArticle True i Rejected articlesRes ast =
       ([Http (Request DELETE (''/api/articles/'' @ i) NoBody), ToastError], ast)"
    by (simp add: deleteArticle_def API_def)
  show "fetchArticle i Rejected adst =
       ([Http (Request GET (''/api/articles/'' @ i) NoBody), ToastError],
        adst\<lparr>ad_loading := False\<rparr>)"
    by (simp add: fetchArticle_def API_def)
  show "fetchData_Dashboard statsRes recentRes bst =
         ([Http (Request GET ''/api/stats'' NoBody),
           Http (Request GET ''/api/summaries?limit=6'' NoBody), ToastError],
          bst\<lparr>d_loading := False\<rparr>)"
    if "statsRes = Rejected \<or> recentRes = Rejected"
    using fetchData_Dashboard_rejected[OF that] by (simp add: dashboardRequests_def API_def)
qed

theorem rejected_request_keeps_state_witness:
  "fetchData_Summaries (Resolved [exampleSummary ''1'' Null 1]) Rejected (Resolved [''GPT''])
     (initialSummaries\<lparr>summaries := [exampleSummary ''2'' Null 2], sv_loading := False\<rparr>) =
     ([Http (Request GET ''/api/summaries'' NoBody),
       Http (Request GET ''/api/categories'' NoBody),
       Http (Request GET ''/api/tags'' NoBody), ToastError],
      initialSummaries\<lparr>summaries := [exampleSummary ''2'' Null 2], sv_loading := False\<rparr>)
   \<and> 2 \<le> length (selectedForArticle (initialSummaries\<lparr>selectedForArticle := [''1'', ''2'']\<rparr>))
   \<and> handleCompileArticle Rejected (initialSummaries\<lparr>selectedForArticle := [''1'', ''2'']\<rparr>) =
       ([Http (Request POST ''/api/articles''
          (ArticleBody \<lparr>ap_title = [], ap_theme = [], ap_summary_ids = [''1'', ''2'']\<rparr>)),
         ToastError],
        initialSummaries\<lparr>selectedForArticle := [''1'', ''2'']\<rparr>)
   \<and> sm_is_new (exampleSummary ''1'' Null 1)
   \<and> fetchSummary ''1'' (Resolved (exampleSummary ''1'' Null 1)) Rejected initialSummaryDetail =
       ([Http (Request GET ''/api/summaries/1'' NoBody),
         Http (Request POST ''/api/summaries/1/mark-read'' NoBody), ToastError],
        \<lparr>sd_summary = Some (exampleSummary ''1'' Null 1), sd_loading = False\<rparr>)
   \<and> fetchData_Dashboard Rejected (Resolved []) initialDashboard =
       ([Http (Request GET ''/api/stats'' NoBody),
         Http (Request GET ''/api/summaries?limit=6'' NoBody), ToastError],
        \<lparr>d_stats = None, recentSummaries = [], d_loading = False\<rparr>)"
  using rejected_request_keeps_state[where summariesRes = "Resolved [exampleSummary ''1'' Null 1]"
      and categoriesRes = Rejected and tagsRes = "Resolved [''GPT'']"
      and mst = "initialSummaries\<lparr>summaries := [exampleSummary ''2'' Null 2], sv_loading := False\<rparr>"
      and statsRes = Rejected and recentRes = "Resolved []" and bst = initialDashboard]
    rejected_request_keeps_state[where
      mst = "initialSummaries\<lparr>selectedForArticle := [''1'', ''2'']\<rparr>" and i = "''1''"
      and d = "exampleSummary ''1'' Null 1" and dst = initialSummaryDetail]
  by (simp add: initialSummaries_def initialSummaryDetail_def initialDashboard_def
      exampleSummary_def compileRequest_def API_def)

text \<open>
  Claim C7. A successful mutation is followed by the refetch of the list it changes. After
  the POST that creates a source, the PUT that updates one, the DELETE of one and the POST
  that toggles one the handler issues the GET of \<^verbatim>\<open>/api/sources\<close>, and the list of sources
  is then what this GET returns (and the list as it was when the GET is rejected). After
  the DELETE of a summary it issues the GETs of the summaries, the categories and the tags,
  and after the DELETE of an article the GET of the articles.
\<close>

theorem mutation_then_refetch:
  "requests (fst (handleSubmit (Resolved u) refetched (sst\<lparr>editingSource := None\<rparr>))) =
     [Request POST ''/api/sources'' (SourceBody (payload (formData sst))),
      Request GET ''/api/sources'' NoBody]
   \<and> requests (fst (handleSubmit (Resolved u) refetched (sst\<lparr>editingSource := Some src\<rparr>))) =
     [Request PUT (''/api/sources/'' @ s_id src) (SourceBody (payload (formData sst))),
      Request GET ''/api/sources'' NoBody]
   \<and> requests (fst (handleDelete True i (Resolved u) refetched sst)) =
     [Request DELETE (''/api/sources/'' @ i) NoBody, Request GET ''/api/sources'' NoBody]
   \<and> requests (fst (handleToggle i (Resolved u) refetched sst)) =
     [Request POST (''/api/sources/'' @ i @ ''/toggle'') NoBody,
      Request GET ''/api/sources'' NoBody]
   \<and> sources (snd (handleSubmit (Resolved u) refetched sst)) =
       (case refetched of Resolved d \<Rightarrow> d | Rejected \<Rightarrow> sources sst)
   \<and> sources (snd (handleDelete True i (Resolved u) refetched sst)) =
       (case refetched of Resolved d \<Rightarrow> d | Rejected \<Rightarrow> sources sst)
   \<and> sources (snd (handleToggle i (Resolved u) refetched sst)) =
       (case refetched of Resolved d \<Rightarrow> d | Rejected \<Rightarrow> sources sst)
   \<and> requests (fst (deleteSummary True i (Resolved u) summariesRes categoriesRes tagsRes mst)) =
     [Request DELETE (''/api/summaries/'' @ i) NoBody, Request GET ''/api/summaries'' NoBody,
      Request GET ''/api/categories'' NoBody, Request GET ''/api/tags'' NoBody]
   \<and> summaries (snd (deleteSummary True i (Resolved u) (Resolved ss) (Resolved cs) (Resolved ts)
        mst)) = ss
   \<and> requests (fst (deleteArticle True i (Resolved u) articlesRes ast)) =
     [Request DELETE (''/api/articles/'' @ i) NoBody, Request GET ''/api/articles'' NoBody]
   \<and> articles (snd (deleteArticle True i (Resolved u) articlesRes ast)) =
       (case articlesRes of Resolved d \<Rightarrow> d | Rejected \<Rightarrow> articles ast)"
proof (intro conjI)
  show "requests (fst (handleSubmit (Resolved u) refetched (sst\<lparr>editingSource := None\<rparr>))) =
     [Request POST ''/api/sources'' (SourceBody (payload (formData sst))),
      Request GET ''/api/sources'' NoBody]"
    by (cases refetched)
      (simp_all add: handleSubmit_def fetchSources_def submitRequest_def API_def)
  show "requests (fst (handleSubmit (Resolved u) refetched (sst\<lparr>editingSource := Some src\<rparr>))) =
     [Request PUT (''/api/sources/'' @ s_id src) (SourceBody (payload (formData sst))),
      Request GET ''/api/sources'' NoBody]"
    by (cases refetched)
      (simp_all add: handleSubmit_def fetchSources_def submitRequest_def API_def)
  show "requests (fst (handleDelete True i (Resolved u) refetched sst)) =
     [Request DELETE (''/api/sources/'' @ i) NoBody, Request GET ''/api/sources'' NoBody]"
    by (cases refetched) (simp_all add: handleDelete_def fetchSources_def API_def)
  show "requests (fst (handleToggle i (Resolved u) refetched sst)) =
     [Request POST (''/api/sources/'' @ i @ ''/toggle'') NoBody,
      Request GET ''/api/sources'' NoBody]"
    by (cases refetched) (simp_all add: handleToggle_def fetchSources_def API_def)
  show "sources (snd (handleSubmit (Resolved u) refetched sst)) =
       (case refetched of Resolved d \<Rightarrow> d | Rejected \<Rightarrow> sources sst)"
    by (cases refetched) (simp_all add: handleSubmit_def fetchSources_def)
  show "sources (snd (handleDelete True i (Resolved u) refetched sst)) =
       (case refetched of Resolved d \<Rightarrow> d | Rejected \<Rightarrow> sources sst)"
    by (cases refetched) (simp_all add: handleDelete_def fetchSources_def)
  show "sources (snd (handleToggle i (Resolved u) refetched sst)) =
       (case refetched of Resolved d \<Rightarrow> d | Rejected \<Rightarrow> sources sst)"
    by (cases refetched) (simp_all add: handleToggle_def fetchSources_def)
  show "requests (fst (deleteSummary True i (Resolved u) summariesRes categoriesRes tagsRes mst)) =
     [Request DELETE (''/api/summaries/'' @ i) NoBody, Request GET ''/api/summaries'' NoBody,
      Request GET ''/api/categories'' NoBody, Request GET ''/api/tags'' NoBody]"
    using requests_fetchData_Summaries[of summariesRes categoriesRes tagsRes mst]
    by (simp add: deleteSummary_def API_def split_beta)
  show "summaries (snd (deleteSummary True i (Resolved u) (Resolved ss) (Resolved cs)
          (Resolved ts) mst)) = ss"
    by (simp add: deleteSummary_def)
  show "requests (fst (deleteArticle True i (Resolved u) articlesRes ast)) =
     [Request DELETE (''/api/articles/'' @ i) NoBody, Request GET ''/api/articles'' NoBody]"
    by (cases articlesRes) (simp_all add: deleteArticle_def fetchData_Articles_def API_def)
  show "articles (snd (deleteArticle True i (Resolved u) articlesRes ast)) =
       (case articlesRes of Resolved d \<Rightarrow> d | Rejected \<Rightarrow> articles ast)"
    by (cases articlesRes) (simp_all add: deleteArticle_def fetchData_Articles_def)
qed

end
